theory Spec2Isabelle
  imports Main "HOL-Library.Multiset" "HOL-Library.Char_ord" "HOL-Library.List_Lexorder"
begin

section \<open>Strings\<close>

text \<open>
  JavaScript strings are modelled as \<^typ>\<open>string\<close>: a list of code units, each below 256.
  \<open>String.prototype.trim\<close> removes white space and line terminators at both ends; in
  this range these are the code units 9 to 13, 32 and 160.
\<close>

definition is_space :: "char \<Rightarrow> bool" where
  "is_space c = (of_char c \<in> set [9, 10, 11, 12, 13, 32, 160 :: nat])"

definition trim :: "string \<Rightarrow> string" where
  "trim s = rev (dropWhile is_space (rev (dropWhile is_space s)))"

text \<open>The character class \<open>[0-9a-fA-F]\<close> of the identifier pattern.\<close>

definition is_hex :: "char \<Rightarrow> bool" where
  "is_hex c = (c \<in> set ''0123456789abcdefABCDEF'')"

text \<open>\<open>id.match(/^[0-9a-fA-F]{24}$/)\<close>: exactly 24 hexadecimal digits.\<close>

definition valid_id :: "string \<Rightarrow> bool" where
  "valid_id i = (length i = 24 \<and> list_all is_hex i)"

text \<open>
  The driver casts a 24-digit hexadecimal string to an ObjectId of 12 bytes, so the
  letters \<open>A\<close> to \<open>F\<close> denote the same identifier as \<open>a\<close> to \<open>f\<close>. Stored identifiers
  are kept in their printed form, which is lower case.
\<close>

definition hex_lower :: "char \<Rightarrow> char" where
  "hex_lower c = (case map_of (zip ''ABCDEF'' ''abcdef'') c of Some l \<Rightarrow> l | None \<Rightarrow> c)"

definition castObjectId :: "string \<Rightarrow> string" where
  "castObjectId i = map hex_lower i"

section \<open>Records, the store and responses\<close>

record song =
  s_id :: string
  title :: string
  artist :: string
  album :: string
  genre :: string
  createdAt :: nat
  updatedAt :: nat

text \<open>
  The collection holds the documents in insertion order. Every operation on the
  collection throws when the medium is unavailable; the handlers catch that.
\<close>

record db =
  docs :: "song list"
  available :: bool

datatype error_code =
  VALIDATION_ERROR | INVALID_ID | SONG_NOT_FOUND | MISSING_PARAMETER | INTERNAL_ERROR

datatype joi_code = any_required | string_base | string_empty | string_max | object_unknown

text \<open>One entry of \<open>error.details\<close>: the field (\<open>detail.path[0]\<close>) and the rule that failed.\<close>

type_synonym detail = "string \<times> joi_code"

text \<open>An HTTP response: the status and \<open>data\<close>, or the status, \<open>error.code\<close> and \<open>error.details\<close>.\<close>

datatype 'a response = Success nat 'a | Failure nat error_code "detail list"

section \<open>Validation (songValidationSchema)\<close>

text \<open>A JSON value of the request body: a string, or anything else (null, number, ...).\<close>

datatype jvalue = JString string | JOther

text \<open>The request body: the four known keys, each present or not, and the other keys.\<close>

record song_body =
  b_title :: "jvalue option"
  b_artist :: "jvalue option"
  b_album :: "jvalue option"
  b_genre :: "jvalue option"
  b_unknown :: "string list"

text \<open>The validated value: the four fields, trimmed.\<close>

record song_value =
  v_title :: string
  v_artist :: string
  v_album :: string
  v_genre :: string

text \<open>
  \<open>Joi.string().trim().min(1).max(n).required()\<close> on one key: an absent key is
  \<open>any.required\<close>, a value that is not a string is \<open>string.base\<close>; a string is trimmed
  first, then the empty string is \<open>string.empty\<close> and more than \<open>n\<close> code units is
  \<open>string.max\<close>.
\<close>

definition validate_field :: "nat \<Rightarrow> jvalue option \<Rightarrow> joi_code + string" where
  "validate_field n v =
     (case v of
        None \<Rightarrow> Inl any_required
      | Some JOther \<Rightarrow> Inl string_base
      | Some (JString s) \<Rightarrow>
          (let t = trim s in
           if t = [] then Inl string_empty
           else if n < length t then Inl string_max
           else Inr t))"

definition field_errors :: "string \<Rightarrow> nat \<Rightarrow> jvalue option \<Rightarrow> detail list" where
  "field_errors name n v = (case validate_field n v of Inl c \<Rightarrow> [(name, c)] | Inr _ \<Rightarrow> [])"

definition field_value :: "nat \<Rightarrow> jvalue option \<Rightarrow> string" where
  "field_value n v = (case validate_field n v of Inl _ \<Rightarrow> [] | Inr t \<Rightarrow> t)"

text \<open>
  Every error of the body, in the order in which the schema finds them: the keys
  \<open>title\<close>, \<open>artist\<close>, \<open>album\<close>, \<open>genre\<close> in the order of the schema, then the keys the
  schema does not know.
\<close>

definition all_errors :: "song_body \<Rightarrow> detail list" where
  "all_errors b =
     field_errors ''title'' 200 (b_title b) @
     field_errors ''artist'' 100 (b_artist b) @
     field_errors ''album'' 200 (b_album b) @
     field_errors ''genre'' 50 (b_genre b) @
     map (\<lambda>k. (k, object_unknown)) (b_unknown b)"

text \<open>
  \<open>songValidationSchema.validate(req.body)\<close>. No options are passed, so \<open>abortEarly\<close>
  has its default \<open>true\<close>: validation stops at the first error and \<open>error.details\<close> holds
  that error alone.
\<close>

definition songValidationSchema_validate :: "song_body \<Rightarrow> detail list + song_value" where
  "songValidationSchema_validate b =
     (case all_errors b of
        e # _ \<Rightarrow> Inl [e]
      | [] \<Rightarrow> Inr \<lparr> v_title = field_value 200 (b_title b),
                   v_artist = field_value 100 (b_artist b),
                   v_album = field_value 200 (b_album b),
                   v_genre = field_value 50 (b_genre b) \<rparr>)"

section \<open>The song controller\<close>

text \<open>
  \<open>createSong\<close>: \<open>now\<close> is the clock and \<open>oid\<close> the identifier the driver generates for the
  new document. The schema of the model repeats the rules of the validation schema, so
  a validated value passes it.
\<close>

definition createSong :: "nat \<Rightarrow> string \<Rightarrow> song_body \<Rightarrow> db \<Rightarrow> song response \<times> db" where
  "createSong now oid body d =
     (case songValidationSchema_validate body of
        Inl ds \<Rightarrow> (Failure 400 VALIDATION_ERROR ds, d)
      | Inr v \<Rightarrow>
          if \<not> available d then (Failure 500 INTERNAL_ERROR [], d)
          else
            let s = \<lparr> s_id = oid, title = v_title v, artist = v_artist v, album = v_album v,
                      genre = v_genre v, createdAt = now, updatedAt = now \<rparr>
            in (Success 201 s, d\<lparr>docs := docs d @ [s]\<rparr>))"

text \<open>\<open>Song.findByIdAndUpdate(id, value, {new: true})\<close> on the list of documents.\<close>

fun replace_doc :: "string \<Rightarrow> (song \<Rightarrow> song) \<Rightarrow> song list \<Rightarrow> song list" where
  "replace_doc i f [] = []"
| "replace_doc i f (s # ss) = (if s_id s = i then f s # ss else s # replace_doc i f ss)"

definition apply_update :: "nat \<Rightarrow> song_value \<Rightarrow> song \<Rightarrow> song" where
  "apply_update now v s =
     s\<lparr>title := v_title v, artist := v_artist v, album := v_album v, genre := v_genre v,
       updatedAt := now\<rparr>"

definition updateSong :: "nat \<Rightarrow> string \<Rightarrow> song_body \<Rightarrow> db \<Rightarrow> song response \<times> db" where
  "updateSong now i body d =
     (if \<not> valid_id i then (Failure 400 INVALID_ID [], d)
      else
        case songValidationSchema_validate body of
          Inl ds \<Rightarrow> (Failure 400 VALIDATION_ERROR ds, d)
        | Inr v \<Rightarrow>
            if \<not> available d then (Failure 500 INTERNAL_ERROR [], d)
            else
              (case find (\<lambda>s. s_id s = castObjectId i) (docs d) of
                 None \<Rightarrow> (Failure 404 SONG_NOT_FOUND [], d)
               | Some s \<Rightarrow>
                   (Success 200 (apply_update now v s),
                    d\<lparr>docs := replace_doc (castObjectId i) (apply_update now v) (docs d)\<rparr>)))"

text \<open>\<open>Song.findByIdAndDelete(id)\<close> on the list of documents.\<close>

fun remove_doc :: "string \<Rightarrow> song list \<Rightarrow> song list" where
  "remove_doc i [] = []"
| "remove_doc i (s # ss) = (if s_id s = i then ss else s # remove_doc i ss)"

definition deleteSong :: "string \<Rightarrow> db \<Rightarrow> song response \<times> db" where
  "deleteSong i d =
     (if \<not> valid_id i then (Failure 400 INVALID_ID [], d)
      else if \<not> available d then (Failure 500 INTERNAL_ERROR [], d)
      else
        case find (\<lambda>s. s_id s = castObjectId i) (docs d) of
          None \<Rightarrow> (Failure 404 SONG_NOT_FOUND [], d)
        | Some s \<Rightarrow> (Success 200 s, d\<lparr>docs := remove_doc (castObjectId i) (docs d)\<rparr>))"

text \<open>
  \<open>filterSongs\<close>: the query parameter \<open>genre\<close> is absent or a string. \<open>!genre\<close> holds for
  an absent parameter and for the empty string. \<open>Song.find({ genre: genre })\<close> casts the
  filter through the path \<open>genre\<close> of the schema, which is declared \<open>trim: true\<close>: the
  parameter is trimmed, and the store gives the documents whose genre is equal to the
  trimmed parameter, most recently created first.
\<close>

definition sort_desc :: "('a \<Rightarrow> nat) \<Rightarrow> 'a list \<Rightarrow> 'a list" where
  "sort_desc f xs = rev (sort_key f xs)"

definition filterSongs :: "string option \<Rightarrow> db \<Rightarrow> song list response" where
  "filterSongs q d =
     (case q of
        None \<Rightarrow> Failure 400 MISSING_PARAMETER []
      | Some g \<Rightarrow>
          if g = [] then Failure 400 MISSING_PARAMETER []
          else if \<not> available d then Failure 500 INTERNAL_ERROR []
          else Success 200 (sort_desc createdAt (filter (\<lambda>s. genre s = trim g) (docs d))))"

section \<open>The statistics controller\<close>

record statistics =
  totalSongs :: nat
  totalArtists :: nat
  totalAlbums :: nat
  totalGenres :: nat
  songsByGenre :: "string \<rightharpoonup> nat"
  songsByArtist :: "string \<rightharpoonup> nat"
  albumsByArtist :: "string \<rightharpoonup> nat"
  songsByAlbum :: "string \<rightharpoonup> nat"

text \<open>
  The stages of the aggregation pipeline, on the list of the documents that reach
  them. \<open>{$count: "count"}\<close> gives one document with the number of its inputs, and no
  document for no input.
\<close>

definition count_stage :: "'a list \<Rightarrow> nat list" where
  "count_stage ds = (if ds = [] then [] else [length ds])"

text \<open>\<open>{$group: {_id: f}}\<close>: one document for every distinct value of \<open>f\<close>.\<close>

definition group_ids :: "('a \<Rightarrow> 'k) \<Rightarrow> 'a list \<Rightarrow> 'k list" where
  "group_ids f ds = remdups (map f ds)"

text \<open>\<open>{$group: {_id: f, count: {$sum: 1}}}\<close>: every distinct value with the number of its inputs.\<close>

definition group_count :: "('a \<Rightarrow> 'k) \<Rightarrow> 'a list \<Rightarrow> ('k \<times> nat) list" where
  "group_count f ds = map (\<lambda>k. (k, length (filter (\<lambda>d. f d = k) ds))) (group_ids f ds)"

text \<open>\<open>{$sort: {count: -1}}\<close>.\<close>

definition sort_count :: "('k \<times> nat) list \<Rightarrow> ('k \<times> nat) list" where
  "sort_count gs = sort_desc snd gs"

text \<open>\<open>result.x[0]?.count || 0\<close>.\<close>

definition first_count :: "nat list \<Rightarrow> nat" where
  "first_count cs = (case cs of [] \<Rightarrow> 0 | c # _ \<Rightarrow> (if c = 0 then 0 else c))"

text \<open>\<open>arr.reduce((acc, curr) => ({ ...acc, [curr._id]: curr.count }), {})\<close>.\<close>

definition toMap :: "('k \<times> nat) list \<Rightarrow> ('k \<rightharpoonup> nat)" where
  "toMap arr = foldl (\<lambda>acc curr. acc(fst curr \<mapsto> snd curr)) Map.empty arr"

definition formattedStats :: "song list \<Rightarrow> statistics" where
  "formattedStats ds =
     \<lparr> totalSongs = first_count (count_stage ds),
       totalArtists = first_count (count_stage (group_ids artist ds)),
       totalAlbums = first_count (count_stage (group_ids album ds)),
       totalGenres = first_count (count_stage (group_ids genre ds)),
       songsByGenre = toMap (sort_count (group_count genre ds)),
       songsByArtist = toMap (sort_count (group_count artist ds)),
       albumsByArtist =
         toMap (sort_count (group_count fst (group_ids (\<lambda>s. (artist s, album s)) ds))),
       songsByAlbum = toMap (sort_count (group_count album ds)) \<rparr>"

definition getStatistics :: "db \<Rightarrow> statistics response" where
  "getStatistics d =
     (if \<not> available d then Failure 500 INTERNAL_ERROR []
      else Success 200 (formattedStats (docs d)))"

text \<open>\<open>m[k] || 0\<close>: the count under a key, an absent key counting as 0.\<close>

definition count_or_0 :: "nat option \<Rightarrow> nat" where
  "count_or_0 c = (case c of None \<Rightarrow> 0 | Some n \<Rightarrow> n)"

section \<open>What the specification says of validation and of filtering\<close>

text \<open>
  A field violates its rule when it is missing, is not text, is empty after trimming
  or is over its length bound.
\<close>

definition violating :: "nat \<Rightarrow> jvalue option \<Rightarrow> bool" where
  "violating n v =
     (case v of
        None \<Rightarrow> True
      | Some JOther \<Rightarrow> True
      | Some (JString s) \<Rightarrow> trim s = [] \<or> n < length (trim s))"

definition violating_fields :: "song_body \<Rightarrow> string list" where
  "violating_fields b =
     map fst (filter snd
       [(''title'', violating 200 (b_title b)),
        (''artist'', violating 100 (b_artist b)),
        (''album'', violating 200 (b_album b)),
        (''genre'', violating 50 (b_genre b))])"

text \<open>
  The specification's \<open>findByGenre\<close>: the records whose genre contains the given text,
  letter case ignored, ordered by title.
\<close>

definition to_lower :: "char \<Rightarrow> char" where
  "to_lower c =
     (case map_of (zip ''ABCDEFGHIJKLMNOPQRSTUVWXYZ'' ''abcdefghijklmnopqrstuvwxyz'') c of
        Some l \<Rightarrow> l
      | None \<Rightarrow> c)"

fun starts_with :: "string \<Rightarrow> string \<Rightarrow> bool" where
  "starts_with s [] = True"
| "starts_with [] (p # ps) = False"
| "starts_with (c # cs) (p # ps) = (c = p \<and> starts_with cs ps)"

fun contains :: "string \<Rightarrow> string \<Rightarrow> bool" where
  "contains [] p = (p = [])"
| "contains (c # cs) p = (starts_with (c # cs) p \<or> contains cs p)"

definition spec_genre_matches :: "string \<Rightarrow> string \<Rightarrow> bool" where
  "spec_genre_matches g x = contains (map to_lower x) (map to_lower g)"

definition spec_findByGenre :: "string \<Rightarrow> song list \<Rightarrow> song list" where
  "spec_findByGenre g ds = sort_key title (filter (\<lambda>s. spec_genre_matches g (genre s)) ds)"

section \<open>The client: slices of the store\<close>

text \<open>
  The client's \<open>Song\<close> has the fields of \<^typ>\<open>song\<close> and its \<open>Statistics\<close> those of
  \<^typ>\<open>statistics\<close>. \<open>CreateSongDto\<close> is the four texts; the data of an update is a
  partial one.
\<close>

type_synonym CreateSongDto = song_value

record SongsState =
  items :: "song list"
  loading :: bool
  error :: "string option"
  selectedSong :: "song option"

record FiltersState =
  f_genre :: "string option"

datatype action =
    FetchSongsRequest
  | FetchSongsSuccess "song list"
  | FetchSongsFailure string
  | CreateSongRequest CreateSongDto
  | CreateSongSuccess song
  | CreateSongFailure string
  | UpdateSongRequest string song_body
  | UpdateSongSuccess song
  | UpdateSongFailure string
  | DeleteSongRequest string
  | DeleteSongSuccess string
  | DeleteSongFailure string
  | SetSelectedSong "song option"
  | FetchStatisticsRequest
  | FetchStatisticsSuccess statistics
  | FetchStatisticsFailure string
  | SetGenreFilter "string option"
  | ClearFilters

text \<open>\<open>Array.prototype.findIndex\<close>, with \<open>None\<close> for \<open>-1\<close>.\<close>

fun findIndex :: "('a \<Rightarrow> bool) \<Rightarrow> 'a list \<Rightarrow> nat option" where
  "findIndex P [] = None"
| "findIndex P (x # xs) = (if P x then Some 0 else map_option Suc (findIndex P xs))"

text \<open>The reducers of \<open>songsSlice\<close>; an action of another slice leaves the state as it is.\<close>

fun songsReducer :: "SongsState \<Rightarrow> action \<Rightarrow> SongsState" where
  "songsReducer st FetchSongsRequest = st\<lparr>loading := True, error := None\<rparr>"
| "songsReducer st (FetchSongsSuccess payload) = st\<lparr>loading := False, items := payload\<rparr>"
| "songsReducer st (FetchSongsFailure payload) = st\<lparr>loading := False, error := Some payload\<rparr>"
| "songsReducer st (CreateSongRequest payload) = st\<lparr>loading := True, error := None\<rparr>"
| "songsReducer st (CreateSongSuccess payload) =
     st\<lparr>loading := False, items := payload # items st\<rparr>"
| "songsReducer st (CreateSongFailure payload) = st\<lparr>loading := False, error := Some payload\<rparr>"
| "songsReducer st (UpdateSongRequest i payload) = st\<lparr>loading := True, error := None\<rparr>"
| "songsReducer st (UpdateSongSuccess payload) =
     (case findIndex (\<lambda>song. s_id song = s_id payload) (items st) of
        None \<Rightarrow> st\<lparr>loading := False\<rparr>
      | Some index \<Rightarrow> st\<lparr>loading := False, items := (items st)[index := payload]\<rparr>)"
| "songsReducer st (UpdateSongFailure payload) = st\<lparr>loading := False, error := Some payload\<rparr>"
| "songsReducer st (DeleteSongRequest payload) = st\<lparr>loading := True, error := None\<rparr>"
| "songsReducer st (DeleteSongSuccess payload) =
     st\<lparr>loading := False, items := filter (\<lambda>song. s_id song \<noteq> payload) (items st)\<rparr>"
| "songsReducer st (DeleteSongFailure payload) = st\<lparr>loading := False, error := Some payload\<rparr>"
| "songsReducer st (SetSelectedSong payload) = st\<lparr>selectedSong := payload\<rparr>"
| "songsReducer st _ = st"

text \<open>The reducers of \<open>filtersSlice\<close>.\<close>

fun filtersReducer :: "FiltersState \<Rightarrow> action \<Rightarrow> FiltersState" where
  "filtersReducer st (SetGenreFilter payload) = st\<lparr>f_genre := payload\<rparr>"
| "filtersReducer st ClearFilters = st\<lparr>f_genre := None\<rparr>"
| "filtersReducer st _ = st"

text \<open>
  Modelled from the spec: the state of \<open>statisticsSlice\<close>, which the sagas and the store
  import and which is not among the sources. The statistics concern holds the last
  snapshot and its own \<open>loading\<close> and \<open>error\<close>.
\<close>

record StatisticsState =
  st_data :: "statistics option"
  st_loading :: bool
  st_error :: "string option"

text \<open>
  Modelled from the spec: the reducers of \<open>statisticsSlice\<close>, not among the sources.
  Entering \<open>Requesting\<close> sets \<open>loading\<close> and clears \<open>error\<close>; \<open>Success\<close> replaces the snapshot
  and clears \<open>loading\<close>; \<open>Failure\<close> clears \<open>loading\<close> and sets \<open>error\<close>, the snapshot left
  as it is; an action of another slice leaves the state as it is.
\<close>

fun statisticsReducer :: "StatisticsState \<Rightarrow> action \<Rightarrow> StatisticsState" where
  "statisticsReducer st FetchStatisticsRequest = st\<lparr>st_loading := True, st_error := None\<rparr>"
| "statisticsReducer st (FetchStatisticsSuccess payload) =
     st\<lparr>st_loading := False, st_data := Some payload\<rparr>"
| "statisticsReducer st (FetchStatisticsFailure payload) =
     st\<lparr>st_loading := False, st_error := Some payload\<rparr>"
| "statisticsReducer st _ = st"

text \<open>The store of \<open>configureStore\<close>: every action goes to the three reducers.\<close>

record RootState =
  songs :: SongsState
  statistics :: StatisticsState
  filters :: FiltersState

definition rootReducer :: "RootState \<Rightarrow> action \<Rightarrow> RootState" where
  "rootReducer st a =
     \<lparr> songs = songsReducer (songs st) a,
       statistics = statisticsReducer (statistics st) a,
       filters = filtersReducer (filters st) a \<rparr>"

section \<open>The client: sagas\<close>

text \<open>
  What a call of the API throws: the \<open>message\<close> of the error, when it has one.
  \<open>error.message || dflt\<close> is the default for no message and for the empty one.
\<close>

type_synonym thrown = "string option"

definition error_message :: "thrown \<Rightarrow> string \<Rightarrow> string" where
  "error_message e dflt = (case e of None \<Rightarrow> dflt | Some m \<Rightarrow> if m = [] then dflt else m)"

text \<open>
  Each worker saga makes one call of the API inside \<open>try\<close>. It is given here as the
  actions it puts once the call has returned a value (\<open>Inr\<close>) or thrown (\<open>Inl\<close>).
\<close>

definition fetchSongsSaga :: "thrown + song list \<Rightarrow> action list" where
  "fetchSongsSaga r =
     (case r of
        Inr fetched \<Rightarrow> [FetchSongsSuccess fetched]
      | Inl e \<Rightarrow> [FetchSongsFailure (error_message e ''Failed to fetch songs'')])"

definition createSongSaga :: "thrown + song \<Rightarrow> action list" where
  "createSongSaga r =
     (case r of
        Inr song \<Rightarrow> [CreateSongSuccess song, FetchStatisticsRequest]
      | Inl e \<Rightarrow> [CreateSongFailure (error_message e ''Failed to create song'')])"

definition updateSongSaga :: "thrown + song \<Rightarrow> action list" where
  "updateSongSaga r =
     (case r of
        Inr song \<Rightarrow> [UpdateSongSuccess song, FetchStatisticsRequest]
      | Inl e \<Rightarrow> [UpdateSongFailure (error_message e ''Failed to update song'')])"

text \<open>\<open>deleteSongSaga\<close> puts the payload of its own action, the identifier.\<close>

definition deleteSongSaga :: "string \<Rightarrow> thrown + unit \<Rightarrow> action list" where
  "deleteSongSaga payload r =
     (case r of
        Inr _ \<Rightarrow> [DeleteSongSuccess payload, FetchStatisticsRequest]
      | Inl e \<Rightarrow> [DeleteSongFailure (error_message e ''Failed to delete song'')])"

definition fetchStatisticsSaga :: "thrown + statistics \<Rightarrow> action list" where
  "fetchStatisticsSaga r =
     (case r of
        Inr stats \<Rightarrow> [FetchStatisticsSuccess stats]
      | Inl e \<Rightarrow> [FetchStatisticsFailure (error_message e ''Failed to fetch statistics'')])"

text \<open>
  \<open>filterSongsSaga\<close> puts \<open>fetchSongsRequest\<close> first, in both branches; with a genre
  (\<open>action.payload\<close> neither \<open>null\<close> nor empty) it then calls the filter of the API and
  puts what follows.
\<close>

definition truthy :: "string option \<Rightarrow> bool" where
  "truthy p = (case p of None \<Rightarrow> False | Some g \<Rightarrow> g \<noteq> [])"

definition filterSongsSaga :: "thrown + song list \<Rightarrow> action list" where
  "filterSongsSaga r =
     (case r of
        Inr fetched \<Rightarrow> [FetchSongsSuccess fetched]
      | Inl e \<Rightarrow> [FetchSongsFailure (error_message e ''Failed to filter songs'')])"

section \<open>The client: the root saga\<close>

text \<open>
  \<open>rootSaga\<close> runs six watchers, each a \<open>takeLatest\<close>: on an action of its type the
  watcher cancels the task it forked before, if that still waits for its call, and
  forks the saga anew. The state of the middleware is, for every watcher, the number
  of the task that waits for the answer of the API, if any; a cancelled task is no
  longer recorded, so its answer finds no task. The delete task keeps the payload of
  its action.
\<close>

record system =
  store :: RootState
  w_fetchSongs :: "nat option"
  w_createSong :: "nat option"
  w_updateSong :: "nat option"
  w_deleteSong :: "(nat \<times> string) option"
  w_fetchStatistics :: "nat option"
  w_filterSongs :: "nat option"
  next_task :: nat

text \<open>
  An action reaches the reducers first, then the watchers. This is the part for every
  action but \<open>setGenreFilter\<close>: the forked saga runs up to its call of the API.
\<close>

fun fork_saga :: "action \<Rightarrow> system \<Rightarrow> system" where
  "fork_saga FetchSongsRequest sys =
     sys\<lparr>w_fetchSongs := Some (next_task sys), next_task := Suc (next_task sys)\<rparr>"
| "fork_saga (CreateSongRequest payload) sys =
     sys\<lparr>w_createSong := Some (next_task sys), next_task := Suc (next_task sys)\<rparr>"
| "fork_saga (UpdateSongRequest i payload) sys =
     sys\<lparr>w_updateSong := Some (next_task sys), next_task := Suc (next_task sys)\<rparr>"
| "fork_saga (DeleteSongRequest payload) sys =
     sys\<lparr>w_deleteSong := Some (next_task sys, payload), next_task := Suc (next_task sys)\<rparr>"
| "fork_saga FetchStatisticsRequest sys =
     sys\<lparr>w_fetchStatistics := Some (next_task sys), next_task := Suc (next_task sys)\<rparr>"
| "fork_saga _ sys = sys"

definition dispatch_plain :: "action \<Rightarrow> system \<Rightarrow> system" where
  "dispatch_plain a sys = fork_saga a (sys\<lparr>store := rootReducer (store sys) a\<rparr>)"

text \<open>
  \<open>setGenreFilter\<close> forks \<open>filterSongsSaga\<close>, which puts \<open>fetchSongsRequest\<close> (an action
  like any other: the watcher of \<open>fetchSongsRequest\<close> forks \<open>fetchSongsSaga\<close>) and then,
  with a genre, waits for its own call.
\<close>

definition dispatch :: "action \<Rightarrow> system \<Rightarrow> system" where
  "dispatch a sys =
     (case a of
        SetGenreFilter payload \<Rightarrow>
          (let sys1 = dispatch_plain FetchSongsRequest
                        (sys\<lparr>store := rootReducer (store sys) a, w_filterSongs := None\<rparr>)
           in if truthy payload
              then sys1\<lparr>w_filterSongs := Some (next_task sys1), next_task := Suc (next_task sys1)\<rparr>
              else sys1)
      | _ \<Rightarrow> dispatch_plain a sys)"

definition puts :: "action list \<Rightarrow> system \<Rightarrow> system" where
  "puts as sys = foldl (\<lambda>s a. dispatch a s) sys as"

text \<open>
  What happens to the client: the user interface dispatches an action, or a call of
  the API returns to the task that made it. An answer for a task that is not the one
  its watcher recorded changes nothing.
\<close>

datatype event =
    Dispatch action
  | FetchSongsReturns nat "thrown + song list"
  | CreateSongReturns nat "thrown + song"
  | UpdateSongReturns nat "thrown + song"
  | DeleteSongReturns nat "thrown + unit"
  | FetchStatisticsReturns nat "thrown + statistics"
  | FilterSongsReturns nat "thrown + song list"

fun step :: "event \<Rightarrow> system \<Rightarrow> system" where
  "step (Dispatch a) sys = dispatch a sys"
| "step (FetchSongsReturns t r) sys =
     (if w_fetchSongs sys = Some t then puts (fetchSongsSaga r) (sys\<lparr>w_fetchSongs := None\<rparr>)
      else sys)"
| "step (CreateSongReturns t r) sys =
     (if w_createSong sys = Some t then puts (createSongSaga r) (sys\<lparr>w_createSong := None\<rparr>)
      else sys)"
| "step (UpdateSongReturns t r) sys =
     (if w_updateSong sys = Some t then puts (updateSongSaga r) (sys\<lparr>w_updateSong := None\<rparr>)
      else sys)"
| "step (DeleteSongReturns t r) sys =
     (case w_deleteSong sys of
        None \<Rightarrow> sys
      | Some (t', payload) \<Rightarrow>
          if t' = t then puts (deleteSongSaga payload r) (sys\<lparr>w_deleteSong := None\<rparr>) else sys)"
| "step (FetchStatisticsReturns t r) sys =
     (if w_fetchStatistics sys = Some t
      then puts (fetchStatisticsSaga r) (sys\<lparr>w_fetchStatistics := None\<rparr>)
      else sys)"
| "step (FilterSongsReturns t r) sys =
     (if w_filterSongs sys = Some t then puts (filterSongsSaga r) (sys\<lparr>w_filterSongs := None\<rparr>)
      else sys)"

definition run :: "event list \<Rightarrow> system \<Rightarrow> system" where
  "run es sys = foldl (\<lambda>s e. step e s) sys es"

text \<open>The store and the middleware before the first action.\<close>

definition initial_system :: system where
  "initial_system =
     \<lparr> store = \<lparr> songs = \<lparr> items = [], loading = False, error = None, selectedSong = None \<rparr>,
                 statistics = \<lparr> st_data = None, st_loading = False, st_error = None \<rparr>,
                 filters = \<lparr> f_genre = None \<rparr> \<rparr>,
       w_fetchSongs = None, w_createSong = None, w_updateSong = None, w_deleteSong = None,
       w_fetchStatistics = None, w_filterSongs = None, next_task = 0 \<rparr>"

section \<open>Example data\<close>

definition song_a :: song where
  "song_a = \<lparr> s_id = ''aaaaaaaaaaaaaaaaaaaaaaaa'', title = ''B side'', artist = ''X'',
               album = ''M'', genre = ''Rock'', createdAt = 1, updatedAt = 1 \<rparr>"

definition song_b :: song where
  "song_b = \<lparr> s_id = ''bbbbbbbbbbbbbbbbbbbbbbbb'', title = ''A side'', artist = ''X'',
               album = ''N'', genre = ''Pop'', createdAt = 2, updatedAt = 2 \<rparr>"

definition song_c :: song where
  "song_c = \<lparr> s_id = ''cccccccccccccccccccccccc'', title = ''C side'', artist = ''Y'',
               album = ''M'', genre = ''Rock'', createdAt = 3, updatedAt = 3 \<rparr>"

definition song_d :: song where
  "song_d = \<lparr> s_id = ''dddddddddddddddddddddddd'', title = ''A'', artist = ''X'',
               album = ''M'', genre = ''Rock'', createdAt = 9, updatedAt = 9 \<rparr>"

definition example_db :: db where
  "example_db = \<lparr> docs = [song_a, song_b, song_c], available = True \<rparr>"

definition body_ok :: song_body where
  "body_ok = \<lparr> b_title = Some (JString ''  A ''), b_artist = Some (JString ''X''),
                b_album = Some (JString ''M''), b_genre = Some (JString ''Rock''),
                b_unknown = [] \<rparr>"

definition body_two_empty :: song_body where
  "body_two_empty = \<lparr> b_title = Some (JString []), b_artist = Some (JString ''   ''),
                       b_album = Some (JString ''M''), b_genre = Some (JString ''Rock''),
                       b_unknown = [] \<rparr>"

definition example_songs :: SongsState where
  "example_songs = \<lparr> items = [song_a, song_b, song_c], loading = True, error = None,
                     selectedSong = None \<rparr>"

definition example_store :: RootState where
  "example_store = \<lparr> songs = example_songs,
                     statistics = \<lparr> st_data = None, st_loading = False, st_error = None \<rparr>,
                     filters = \<lparr> f_genre = None \<rparr> \<rparr>"





section \<open>The example data, evaluated\<close>

lemmas example_defs = example_db_def song_a_def song_b_def song_c_def song_d_def
lemmas validate_defs = songValidationSchema_validate_def all_errors_def field_errors_def
  field_value_def validate_field_def trim_def is_space_def

lemma validate_body_ok:
  "songValidationSchema_validate body_ok =
     Inr \<lparr> v_title = ''A'', v_artist = ''X'', v_album = ''M'', v_genre = ''Rock'' \<rparr>"
  by (simp add: validate_defs body_ok_def)

lemma validate_body_two_empty:
  "songValidationSchema_validate body_two_empty = Inl [(''title'', string_empty)]"
  by (simp add: validate_defs body_two_empty_def)

lemma valid_id_examples:
  "valid_id ''dddddddddddddddddddddddd''" "valid_id ''BBBBBBBBBBBBBBBBBBBBBBBB''"
  "valid_id ''bbbbbbbbbbbbbbbbbbbbbbbb''" "\<not> valid_id ''xyz''"
  by (simp_all add: valid_id_def is_hex_def)

lemma castObjectId_examples:
  "castObjectId ''BBBBBBBBBBBBBBBBBBBBBBBB'' = ''bbbbbbbbbbbbbbbbbbbbbbbb''"
  "castObjectId ''bbbbbbbbbbbbbbbbbbbbbbbb'' = ''bbbbbbbbbbbbbbbbbbbbbbbb''"
  "castObjectId ''dddddddddddddddddddddddd'' = ''dddddddddddddddddddddddd''"
  by (simp_all add: castObjectId_def hex_lower_def)


section \<open>Filtering requires the parameter\<close>

text \<open>
  C10. A filter request whose \<open>genre\<close> parameter is the empty string fails with
  \<open>MISSING_PARAMETER\<close> exactly as a request without the parameter does. The store is
  not asked in either case: the response is the same for every store, also for one
  that is unavailable, where a query would have given \<open>INTERNAL_ERROR\<close>.
\<close>

theorem filterSongs_empty_genre_missing_parameter:
  "filterSongs (Some []) d = Failure 400 MISSING_PARAMETER [] \<and>
   filterSongs None d = Failure 400 MISSING_PARAMETER [] \<and>
   filterSongs (Some []) d = filterSongs (Some []) d' \<and>
   filterSongs None d = filterSongs None d'"
  by (simp add: filterSongs_def)

section \<open>The grouped maps in closed form\<close>

lemma toMap_snoc: "toMap (xs @ [x]) = (toMap xs)(fst x \<mapsto> snd x)"
  by (simp add: toMap_def)

lemma toMap_map_of: "distinct (map fst xs) \<Longrightarrow> toMap xs = map_of xs"
proof (induction xs rule: rev_induct)
  case Nil
  then show ?case by (simp add: toMap_def)
next
  case (snoc x xs)
  then have d: "distinct (map fst xs)" and n: "fst x \<notin> fst ` set xs" by auto
  obtain a b where x: "x = (a, b)" by (cases x)
  from n x have none: "map_of xs a = None" by (simp add: map_of_eq_None_iff)
  have "map_of (xs @ [x]) = (map_of xs)(fst x \<mapsto> snd x)"
  proof
    fix k
    show "map_of (xs @ [x]) k = ((map_of xs)(fst x \<mapsto> snd x)) k"
      using none by (simp add: x map_add_def split: option.splits)
  qed
  with snoc.IH [OF d] show ?case by (simp add: toMap_snoc)
qed

lemma sort_count_mset: "mset (sort_count gs) = mset gs"
  by (simp add: sort_count_def sort_desc_def)

lemma toMap_sort_count:
  assumes "distinct (map fst gs)"
  shows "toMap (sort_count gs) = map_of gs"
proof -
  have m: "mset (map fst (sort_count gs)) = mset (map fst gs)"
    by (simp add: sort_count_mset)
  have d: "distinct (map fst (sort_count gs))"
    using assms m by (metis mset_eq_imp_distinct_iff)
  have "set (sort_count gs) = set gs"
    using sort_count_mset [of gs] by (metis mset_eq_setD)
  with d assms have "map_of (sort_count gs) = map_of gs"
    by (simp add: map_of_inject_set)
  with d show ?thesis by (simp add: toMap_map_of)
qed

lemma map_of_group_count:
  "map_of (group_count f ds) k =
     (if k \<in> f ` set ds then Some (length (filter (\<lambda>d. f d = k) ds)) else None)"
  by (simp add: group_count_def group_ids_def map_of_map_restrict restrict_map_def)

lemma distinct_group_count: "distinct (map fst (group_count f ds))"
  by (simp add: group_count_def group_ids_def comp_def)

lemma grouped_lookup:
  "toMap (sort_count (group_count f ds)) k =
     (if k \<in> f ` set ds then Some (length (filter (\<lambda>d. f d = k) ds)) else None)"
  by (simp add: toMap_sort_count distinct_group_count map_of_group_count)

lemma grouped_dom: "dom (toMap (sort_count (group_count f ds))) = f ` set ds"
  by (auto simp: dom_def grouped_lookup)

lemma sum_length_filter:
  "finite A \<Longrightarrow> f ` set ds \<subseteq> A \<Longrightarrow> (\<Sum>k\<in>A. length (filter (\<lambda>d. f d = k) ds)) = length ds"
proof (induction ds)
  case Nil
  then show ?case by simp
next
  case (Cons d ds)
  then have fd: "f d \<in> A" and sub: "f ` set ds \<subseteq> A" by auto
  have "(\<Sum>k\<in>A. length (filter (\<lambda>x. f x = k) (d # ds))) =
        (\<Sum>k\<in>A. (if f d = k then 1 else 0) + length (filter (\<lambda>x. f x = k) ds))"
    by (rule sum.cong) auto
  also have "\<dots> = (\<Sum>k\<in>A. (if f d = k then 1 else 0)) + (\<Sum>k\<in>A. length (filter (\<lambda>x. f x = k) ds))"
    by (simp add: sum.distrib)
  also have "(\<Sum>k\<in>A. (if f d = k then 1 else 0 :: nat)) = 1"
    using Cons.prems(1) fd by simp
  finally show ?case using Cons.IH [OF Cons.prems(1) sub] by simp
qed

lemma grouped_sum:
  "(\<Sum>k\<in>dom (toMap (sort_count (group_count f ds))). the (toMap (sort_count (group_count f ds)) k)) = length ds"
proof -
  have "(\<Sum>k\<in>f ` set ds. the (toMap (sort_count (group_count f ds)) k)) =
        (\<Sum>k\<in>f ` set ds. length (filter (\<lambda>d. f d = k) ds))"
    by (rule sum.cong) (simp_all add: grouped_lookup)
  then show ?thesis by (simp add: grouped_dom sum_length_filter)
qed

lemma first_count_stage: "first_count (count_stage ds) = length ds"
  by (simp add: first_count_def count_stage_def split: list.splits)

lemma distinct_count: "first_count (count_stage (group_ids f ds)) = card (f ` set ds)"
  by (simp add: first_count_stage group_ids_def length_remdups_card_conv)

lemma pairs_of_artist:
  "length (filter (\<lambda>p. fst p = a) (group_ids (\<lambda>s. (artist s, album s)) ds)) =
   card {p \<in> (\<lambda>s. (artist s, album s)) ` set ds. fst p = a}"
proof -
  have "distinct (group_ids (\<lambda>s. (artist s, album s)) ds)"
    by (simp add: group_ids_def)
  then have "length (filter (\<lambda>p. fst p = a) (group_ids (\<lambda>s. (artist s, album s)) ds)) =
        card ({p. fst p = a} \<inter> set (group_ids (\<lambda>s. (artist s, album s)) ds))"
    by (rule distinct_length_filter)
  also have "{p. fst p = a} \<inter> set (group_ids (\<lambda>s. (artist s, album s)) ds) =
        {p \<in> (\<lambda>s. (artist s, album s)) ` set ds. fst p = a}"
    by (auto simp: group_ids_def)
  finally show ?thesis .
qed

lemma albumsByArtist_lookup:
  "albumsByArtist (formattedStats ds) a =
     (if a \<in> artist ` set ds
      then Some (card {p \<in> (\<lambda>s. (artist s, album s)) ` set ds. fst p = a})
      else None)"
proof -
  have "fst ` set (group_ids (\<lambda>s. (artist s, album s)) ds) = artist ` set ds"
    by (force simp: group_ids_def)
  then show ?thesis
    by (simp add: formattedStats_def grouped_lookup pairs_of_artist)
qed

lemma songsByGenre_lookup:
  "songsByGenre (formattedStats ds) g =
     (if g \<in> genre ` set ds then Some (length (filter (\<lambda>s. genre s = g) ds)) else None)"
  by (simp add: formattedStats_def grouped_lookup)


section \<open>Statistics accuracy\<close>

text \<open>
  C1. For every record set, the statistics computation returns \<open>totalSongs\<close> equal to the
  number of records, \<open>totalArtists\<close>, \<open>totalAlbums\<close> and \<open>totalGenres\<close> equal to the number
  of distinct artists, albums and genres, and the maps \<open>songsByGenre\<close>, \<open>songsByArtist\<close>
  and \<open>songsByAlbum\<close> hold under every key the number of records with that key, so that
  the values of each map sum to the number of records; \<open>albumsByArtist\<close> maps every
  artist to the number of distinct pairs of that artist and an album.
\<close>

theorem getStatistics_accuracy:
  assumes "available d"
  shows "\<exists>st. getStatistics d = Success 200 st \<and>
     totalSongs st = length (docs d) \<and>
     totalArtists st = card (artist ` set (docs d)) \<and>
     totalAlbums st = card (album ` set (docs d)) \<and>
     totalGenres st = card (genre ` set (docs d)) \<and>
     (\<forall>g. songsByGenre st g =
        (if g \<in> genre ` set (docs d)
         then Some (length (filter (\<lambda>s. genre s = g) (docs d))) else None)) \<and>
     (\<forall>a. songsByArtist st a =
        (if a \<in> artist ` set (docs d)
         then Some (length (filter (\<lambda>s. artist s = a) (docs d))) else None)) \<and>
     (\<forall>b. songsByAlbum st b =
        (if b \<in> album ` set (docs d)
         then Some (length (filter (\<lambda>s. album s = b) (docs d))) else None)) \<and>
     (\<Sum>g\<in>dom (songsByGenre st). the (songsByGenre st g)) = length (docs d) \<and>
     (\<Sum>a\<in>dom (songsByArtist st). the (songsByArtist st a)) = length (docs d) \<and>
     (\<Sum>b\<in>dom (songsByAlbum st). the (songsByAlbum st b)) = length (docs d) \<and>
     (\<forall>a. albumsByArtist st a =
        (if a \<in> artist ` set (docs d)
         then Some (card {p \<in> (\<lambda>s. (artist s, album s)) ` set (docs d). fst p = a})
         else None))"
proof -
  let ?st = "formattedStats (docs d)"
  have r: "getStatistics d = Success 200 ?st"
    using assms by (simp add: getStatistics_def)
  have t: "totalSongs ?st = length (docs d)"
    by (simp add: formattedStats_def first_count_stage)
  have c: "totalArtists ?st = card (artist ` set (docs d))"
    "totalAlbums ?st = card (album ` set (docs d))"
    "totalGenres ?st = card (genre ` set (docs d))"
    by (simp_all add: formattedStats_def distinct_count)
  have l: "\<forall>g. songsByGenre ?st g =
        (if g \<in> genre ` set (docs d)
         then Some (length (filter (\<lambda>s. genre s = g) (docs d))) else None)"
    "\<forall>a. songsByArtist ?st a =
        (if a \<in> artist ` set (docs d)
         then Some (length (filter (\<lambda>s. artist s = a) (docs d))) else None)"
    "\<forall>b. songsByAlbum ?st b =
        (if b \<in> album ` set (docs d)
         then Some (length (filter (\<lambda>s. album s = b) (docs d))) else None)"
    by (simp_all add: formattedStats_def grouped_lookup)
  have s: "(\<Sum>g\<in>dom (songsByGenre ?st). the (songsByGenre ?st g)) = length (docs d)"
    "(\<Sum>a\<in>dom (songsByArtist ?st). the (songsByArtist ?st a)) = length (docs d)"
    "(\<Sum>b\<in>dom (songsByAlbum ?st). the (songsByAlbum ?st b)) = length (docs d)"
    by (simp_all add: formattedStats_def grouped_sum)
  have a: "\<forall>a. albumsByArtist ?st a =
        (if a \<in> artist ` set (docs d)
         then Some (card {p \<in> (\<lambda>s. (artist s, album s)) ` set (docs d). fst p = a})
         else None)"
    by (simp add: albumsByArtist_lookup)
  from r t c l s a show ?thesis by blast
qed

theorem getStatistics_accuracy_witness:
  "available example_db \<and>
   (\<exists>st. getStatistics example_db = Success 200 st \<and> totalSongs st = 3 \<and>
      totalArtists st = 2 \<and> totalAlbums st = 2 \<and> totalGenres st = 2 \<and>
      songsByGenre st ''Rock'' = Some 2 \<and> songsByGenre st ''Pop'' = Some 1 \<and>
      songsByGenre st ''Jazz'' = None \<and>
      albumsByArtist st ''X'' = Some 2 \<and> albumsByArtist st ''Y'' = Some 1)"
proof -
  have av: "available example_db" by (simp add: example_db_def)
  from getStatistics_accuracy [OF av] obtain st where
    r: "getStatistics example_db = Success 200 st" and
    t: "totalSongs st = length (docs example_db)" and
    c: "totalArtists st = card (artist ` set (docs example_db))"
       "totalAlbums st = card (album ` set (docs example_db))"
       "totalGenres st = card (genre ` set (docs example_db))" and
    g: "\<forall>g. songsByGenre st g =
        (if g \<in> genre ` set (docs example_db)
         then Some (length (filter (\<lambda>s. genre s = g) (docs example_db))) else None)" and
    a: "\<forall>a. albumsByArtist st a =
        (if a \<in> artist ` set (docs example_db)
         then Some (card {p \<in> (\<lambda>s. (artist s, album s)) ` set (docs example_db). fst p = a})
         else None)"
    by blast
  have t': "totalSongs st = 3" using t by (simp add: example_db_def)
  have c': "totalArtists st = 2" "totalAlbums st = 2" "totalGenres st = 2"
    using c by (simp_all add: example_db_def song_a_def song_b_def song_c_def card_insert_if)
  have g': "songsByGenre st ''Rock'' = Some 2" "songsByGenre st ''Pop'' = Some 1"
    "songsByGenre st ''Jazz'' = None"
    using g by (simp_all add: example_db_def song_a_def song_b_def song_c_def)
  have px: "{p \<in> (\<lambda>s. (artist s, album s)) ` set (docs example_db). fst p = ''X''} =
      {(''X'', ''M''), (''X'', ''N'')}"
    by (auto simp: example_db_def song_a_def song_b_def song_c_def)
  have py: "{p \<in> (\<lambda>s. (artist s, album s)) ` set (docs example_db). fst p = ''Y''} =
      {(''Y'', ''M'')}"
    by (auto simp: example_db_def song_a_def song_b_def song_c_def)
  have a': "albumsByArtist st ''X'' = Some 2" "albumsByArtist st ''Y'' = Some 1"
    using a by (simp_all add: px py) (simp_all add: example_db_def song_a_def song_b_def song_c_def)
  from av r t' c' g' a' show ?thesis by blast
qed

section \<open>Statistics reactivity\<close>

lemma count_or_0_songsByGenre:
  "count_or_0 (songsByGenre (formattedStats ds) g) = length (filter (\<lambda>s. genre s = g) ds)"
proof (cases "g \<in> genre ` set ds")
  case True
  then show ?thesis by (simp add: songsByGenre_lookup count_or_0_def)
next
  case False
  then have "filter (\<lambda>s. genre s = g) ds = []"
    by (auto simp: filter_empty_conv)
  with False show ?thesis by (simp add: songsByGenre_lookup count_or_0_def)
qed

lemma genre_present_iff: "g \<in> genre ` set ds \<longleftrightarrow> 0 < length (filter (\<lambda>s. genre s = g) ds)"
  by (auto simp: filter_empty_conv)

lemma remove_doc_split:
  "find (\<lambda>s. s_id s = k) ds = Some s \<Longrightarrow> \<exists>pre post. ds = pre @ s # post \<and> remove_doc k ds = pre @ post"
proof (induction ds)
  case Nil
  then show ?case by simp
next
  case (Cons x xs)
  show ?case
  proof (cases "s_id x = k")
    case True
    with Cons.prems have "x = s" by simp
    with True have "x # xs = [] @ s # xs \<and> remove_doc k (x # xs) = [] @ xs" by simp
    then show ?thesis by blast
  next
    case False
    with Cons obtain pre post where "xs = pre @ s # post" "remove_doc k xs = pre @ post"
      by auto
    with False have "x # xs = (x # pre) @ s # post \<and> remove_doc k (x # xs) = (x # pre) @ post"
      by simp
    then show ?thesis by blast
  qed
qed

text \<open>
  C8. Inserting a record with genre \<open>G\<close> makes the recomputed \<open>songsByGenre[G]\<close> exactly one
  greater than before the insertion, an absent key counting as 0; deleting a record
  with genre \<open>G\<close> makes it exactly one smaller, and the key is absent when the count
  reaches 0.
\<close>

theorem songsByGenre_reactivity:
  "(createSong now oid body d = (Success 201 s, d') \<longrightarrow>
      (\<exists>before after.
         getStatistics d = Success 200 before \<and> getStatistics d' = Success 200 after \<and>
         songsByGenre after (genre s) =
           Some (count_or_0 (songsByGenre before (genre s)) + 1))) \<and>
   (deleteSong i d = (Success 200 x, d2) \<longrightarrow>
      (\<exists>before after.
         getStatistics d = Success 200 before \<and> getStatistics d2 = Success 200 after \<and>
         0 < count_or_0 (songsByGenre before (genre x)) \<and>
         songsByGenre after (genre x) =
           (if count_or_0 (songsByGenre before (genre x)) = 1 then None
            else Some (count_or_0 (songsByGenre before (genre x)) - 1))))"
proof (intro conjI impI)
  assume c: "createSong now oid body d = (Success 201 s, d')"
  then obtain v where v: "songValidationSchema_validate body = Inr v"
    by (cases "songValidationSchema_validate body") (simp_all add: createSong_def)
  from c v have av: "available d"
    by (cases "available d") (simp_all add: createSong_def)
  from c v av have d': "docs d' = docs d @ [s]" "available d'"
    by (auto simp: createSong_def Let_def)
  have "songsByGenre (formattedStats (docs d')) (genre s) =
        Some (length (filter (\<lambda>x. genre x = genre s) (docs d)) + 1)"
    by (simp add: d' songsByGenre_lookup)
  then have "songsByGenre (formattedStats (docs d')) (genre s) =
        Some (count_or_0 (songsByGenre (formattedStats (docs d)) (genre s)) + 1)"
    by (simp only: count_or_0_songsByGenre)
  with av d' show "\<exists>before after.
         getStatistics d = Success 200 before \<and> getStatistics d' = Success 200 after \<and>
         songsByGenre after (genre s) =
           Some (count_or_0 (songsByGenre before (genre s)) + 1)"
    by (simp add: getStatistics_def)
next
  assume c: "deleteSong i d = (Success 200 x, d2)"
  then have vi: "valid_id i" and av: "available d"
    by (auto simp: deleteSong_def split: if_splits)
  from c vi av have f: "find (\<lambda>s. s_id s = castObjectId i) (docs d) = Some x"
    and d2: "docs d2 = remove_doc (castObjectId i) (docs d)" "available d2"
    by (auto simp: deleteSong_def split: option.splits)
  from remove_doc_split [OF f] d2 obtain pre post where
    p: "docs d = pre @ x # post" "docs d2 = pre @ post" by auto
  let ?n = "length (filter (\<lambda>y. genre y = genre x) (pre @ post))"
  have b: "count_or_0 (songsByGenre (formattedStats (docs d)) (genre x)) = Suc ?n"
    by (simp add: p count_or_0_songsByGenre)
  have a: "songsByGenre (formattedStats (docs d2)) (genre x) = (if ?n = 0 then None else Some ?n)"
    using genre_present_iff [of "genre x" "pre @ post"]
    by (simp add: p songsByGenre_lookup del: filter_append)
  from a b have "0 < count_or_0 (songsByGenre (formattedStats (docs d)) (genre x)) \<and>
         songsByGenre (formattedStats (docs d2)) (genre x) =
           (if count_or_0 (songsByGenre (formattedStats (docs d)) (genre x)) = 1 then None
            else Some (count_or_0 (songsByGenre (formattedStats (docs d)) (genre x)) - 1))"
    by simp
  with av d2 show "\<exists>before after.
         getStatistics d = Success 200 before \<and> getStatistics d2 = Success 200 after \<and>
         0 < count_or_0 (songsByGenre before (genre x)) \<and>
         songsByGenre after (genre x) =
           (if count_or_0 (songsByGenre before (genre x)) = 1 then None
            else Some (count_or_0 (songsByGenre before (genre x)) - 1))"
    by (simp add: getStatistics_def)
qed

theorem songsByGenre_reactivity_witness:
  "createSong 9 ''dddddddddddddddddddddddd'' body_ok example_db =
     (Success 201 song_d, example_db\<lparr>docs := [song_a, song_b, song_c, song_d]\<rparr>) \<and>
   songsByGenre (formattedStats [song_a, song_b, song_c]) ''Rock'' = Some 2 \<and>
   songsByGenre (formattedStats [song_a, song_b, song_c, song_d]) ''Rock'' = Some 3 \<and>
   deleteSong ''bbbbbbbbbbbbbbbbbbbbbbbb'' example_db =
     (Success 200 song_b, example_db\<lparr>docs := [song_a, song_c]\<rparr>) \<and>
   songsByGenre (formattedStats [song_a, song_b, song_c]) ''Pop'' = Some 1 \<and>
   songsByGenre (formattedStats [song_a, song_c]) ''Pop'' = None"
proof -
  let ?dc = "example_db\<lparr>docs := [song_a, song_b, song_c, song_d]\<rparr>"
  let ?dd = "example_db\<lparr>docs := [song_a, song_c]\<rparr>"
  have c: "createSong 9 ''dddddddddddddddddddddddd'' body_ok example_db = (Success 201 song_d, ?dc)"
    by (simp add: createSong_def Let_def validate_body_ok example_defs)
  have d: "deleteSong ''bbbbbbbbbbbbbbbbbbbbbbbb'' example_db = (Success 200 song_b, ?dd)"
    by (simp add: deleteSong_def valid_id_examples castObjectId_examples example_defs)
  have b: "getStatistics example_db = Success 200 (formattedStats [song_a, song_b, song_c])"
    "getStatistics ?dc = Success 200 (formattedStats [song_a, song_b, song_c, song_d])"
    "getStatistics ?dd = Success 200 (formattedStats [song_a, song_c])"
    by (simp_all add: getStatistics_def example_db_def)
  have n: "count_or_0 (songsByGenre (formattedStats [song_a, song_b, song_c]) ''Rock'') = 2"
    "count_or_0 (songsByGenre (formattedStats [song_a, song_b, song_c]) ''Pop'') = 1"
    by (simp_all add: count_or_0_songsByGenre example_defs)
  have g: "genre song_d = ''Rock''" "genre song_b = ''Pop''"
    by (simp_all add: example_defs)
  from songsByGenre_reactivity
    [where now = 9 and oid = "''dddddddddddddddddddddddd''" and body = body_ok
       and d = example_db and s = song_d and d' = ?dc
       and i = "''bbbbbbbbbbbbbbbbbbbbbbbb''" and x = song_b and ?d2.0 = ?dd] c d
  have r: "songsByGenre (formattedStats [song_a, song_b, song_c, song_d]) ''Rock'' = Some 3"
    "songsByGenre (formattedStats [song_a, song_c]) ''Pop'' = None"
    by (simp_all add: b n g)
  have o: "songsByGenre (formattedStats [song_a, song_b, song_c]) ''Rock'' = Some 2"
    "songsByGenre (formattedStats [song_a, song_b, song_c]) ''Pop'' = Some 1"
    by (simp_all add: songsByGenre_lookup example_defs)
  from c d r o show ?thesis by simp
qed

section \<open>The order of the checks of an update\<close>

lemma find_None_iff_id: "find (\<lambda>s. s_id s = k) xs = None \<longleftrightarrow> k \<notin> s_id ` set xs"
  by (induction xs) auto

lemma find_first_split:
  "k \<notin> s_id ` set pre \<Longrightarrow> s_id s = k \<Longrightarrow> find (\<lambda>s. s_id s = k) (pre @ s # post) = Some s"
  by (induction pre) auto

lemma replace_doc_first_split:
  "k \<notin> s_id ` set pre \<Longrightarrow> s_id s = k \<Longrightarrow> replace_doc k f (pre @ s # post) = pre @ f s # post"
  by (induction pre) auto

text \<open>
  C5. An update decides its failures in this order: an identifier that does not match
  the pattern of 24 hexadecimal digits gives \<open>INVALID_ID\<close>, whatever the payload;
  otherwise a payload the schema rejects gives \<open>VALIDATION_ERROR\<close>; otherwise, the store
  being available, no record with that identifier gives \<open>SONG_NOT_FOUND\<close>; otherwise the
  four text fields of the record are overwritten and the updated record is returned.
\<close>

theorem updateSong_decision_order:
  "(\<not> valid_id i \<longrightarrow> updateSong now i body d = (Failure 400 INVALID_ID [], d)) \<and>
   (valid_id i \<and> songValidationSchema_validate body = Inl ds \<longrightarrow>
      updateSong now i body d = (Failure 400 VALIDATION_ERROR ds, d)) \<and>
   (valid_id i \<and> songValidationSchema_validate body = Inr v \<and> available d \<and>
    castObjectId i \<notin> s_id ` set (docs d) \<longrightarrow>
      updateSong now i body d = (Failure 404 SONG_NOT_FOUND [], d)) \<and>
   (valid_id i \<and> songValidationSchema_validate body = Inr v \<and> available d \<and>
    docs d = pre @ s # post \<and> s_id s = castObjectId i \<and> castObjectId i \<notin> s_id ` set pre \<longrightarrow>
      updateSong now i body d =
        (Success 200
           (s\<lparr>title := v_title v, artist := v_artist v, album := v_album v,
              genre := v_genre v, updatedAt := now\<rparr>),
         d\<lparr>docs := pre @ s\<lparr>title := v_title v, artist := v_artist v, album := v_album v,
                              genre := v_genre v, updatedAt := now\<rparr> # post\<rparr>))"
proof (intro conjI impI)
  assume "\<not> valid_id i"
  then show "updateSong now i body d = (Failure 400 INVALID_ID [], d)"
    by (simp add: updateSong_def)
next
  assume "valid_id i \<and> songValidationSchema_validate body = Inl ds"
  then show "updateSong now i body d = (Failure 400 VALIDATION_ERROR ds, d)"
    by (simp add: updateSong_def)
next
  assume "valid_id i \<and> songValidationSchema_validate body = Inr v \<and> available d \<and>
    castObjectId i \<notin> s_id ` set (docs d)"
  then show "updateSong now i body d = (Failure 404 SONG_NOT_FOUND [], d)"
    using find_None_iff_id [of "castObjectId i" "docs d"]
    by (simp add: updateSong_def)
next
  assume a: "valid_id i \<and> songValidationSchema_validate body = Inr v \<and> available d \<and>
    docs d = pre @ s # post \<and> s_id s = castObjectId i \<and> castObjectId i \<notin> s_id ` set pre"
  then have "find (\<lambda>s. s_id s = castObjectId i) (docs d) = Some s"
    and "replace_doc (castObjectId i) (apply_update now v) (docs d) = pre @ apply_update now v s # post"
    by (simp_all add: find_first_split replace_doc_first_split)
  with a show "updateSong now i body d =
        (Success 200
           (s\<lparr>title := v_title v, artist := v_artist v, album := v_album v,
              genre := v_genre v, updatedAt := now\<rparr>),
         d\<lparr>docs := pre @ s\<lparr>title := v_title v, artist := v_artist v, album := v_album v,
                              genre := v_genre v, updatedAt := now\<rparr> # post\<rparr>)"
    by (simp add: updateSong_def apply_update_def)
qed

theorem updateSong_decision_order_witness:
  "updateSong 9 ''xyz'' body_ok example_db = (Failure 400 INVALID_ID [], example_db) \<and>
   updateSong 9 ''xyz'' body_two_empty example_db = (Failure 400 INVALID_ID [], example_db) \<and>
   updateSong 9 ''BBBBBBBBBBBBBBBBBBBBBBBB'' body_two_empty example_db =
     (Failure 400 VALIDATION_ERROR [(''title'', string_empty)], example_db) \<and>
   updateSong 9 ''dddddddddddddddddddddddd'' body_ok example_db =
     (Failure 404 SONG_NOT_FOUND [], example_db) \<and>
   updateSong 9 ''BBBBBBBBBBBBBBBBBBBBBBBB'' body_ok example_db =
     (Success 200 (song_b\<lparr>title := ''A'', artist := ''X'', album := ''M'', genre := ''Rock'',
                           updatedAt := 9\<rparr>),
      example_db\<lparr>docs := [song_a,
                            song_b\<lparr>title := ''A'', artist := ''X'', album := ''M'',
                                   genre := ''Rock'', updatedAt := 9\<rparr>,
                            song_c]\<rparr>)"
proof -
  have 1: "updateSong 9 ''xyz'' body_ok example_db = (Failure 400 INVALID_ID [], example_db)"
    using updateSong_decision_order [where i = "''xyz''" and now = 9 and body = body_ok
        and d = example_db]
    by (simp add: valid_id_examples)
  have 2: "updateSong 9 ''xyz'' body_two_empty example_db = (Failure 400 INVALID_ID [], example_db)"
    using updateSong_decision_order [where i = "''xyz''" and now = 9 and body = body_two_empty
        and d = example_db]
    by (simp add: valid_id_examples)
  have 3: "updateSong 9 ''BBBBBBBBBBBBBBBBBBBBBBBB'' body_two_empty example_db =
     (Failure 400 VALIDATION_ERROR [(''title'', string_empty)], example_db)"
    using updateSong_decision_order [where i = "''BBBBBBBBBBBBBBBBBBBBBBBB''" and now = 9
        and body = body_two_empty and d = example_db and ds = "[(''title'', string_empty)]"]
    by (simp add: valid_id_examples validate_body_two_empty)
  have 4: "updateSong 9 ''dddddddddddddddddddddddd'' body_ok example_db =
     (Failure 404 SONG_NOT_FOUND [], example_db)"
    using updateSong_decision_order [where i = "''dddddddddddddddddddddddd''" and now = 9
        and body = body_ok and d = example_db
        and v = "\<lparr> v_title = ''A'', v_artist = ''X'', v_album = ''M'', v_genre = ''Rock'' \<rparr>"]
    by (simp add: valid_id_examples validate_body_ok castObjectId_examples example_defs)
  have 5: "updateSong 9 ''BBBBBBBBBBBBBBBBBBBBBBBB'' body_ok example_db =
     (Success 200 (song_b\<lparr>title := ''A'', artist := ''X'', album := ''M'', genre := ''Rock'',
                           updatedAt := 9\<rparr>),
      example_db\<lparr>docs := [song_a,
                            song_b\<lparr>title := ''A'', artist := ''X'', album := ''M'',
                                   genre := ''Rock'', updatedAt := 9\<rparr>,
                            song_c]\<rparr>)"
    using updateSong_decision_order [where i = "''BBBBBBBBBBBBBBBBBBBBBBBB''" and now = 9
        and body = body_ok and d = example_db
        and v = "\<lparr> v_title = ''A'', v_artist = ''X'', v_album = ''M'', v_genre = ''Rock'' \<rparr>"
        and pre = "[song_a]" and s = song_b and post = "[song_c]"]
    by (simp add: valid_id_examples validate_body_ok castObjectId_examples example_defs)
  from 1 2 3 4 5 show ?thesis by simp
qed

section \<open>What a rejected payload reports\<close>

lemma field_errors_violating:
  "map fst (field_errors name n v) = (if violating n v then [name] else [])"
  by (auto simp: field_errors_def violating_def validate_field_def Let_def
      split: option.splits jvalue.splits)

lemma all_errors_violating: "map fst (all_errors b) = violating_fields b @ b_unknown b"
  by (simp add: all_errors_def violating_fields_def field_errors_violating comp_def)

lemma validate_first_violation:
  assumes "violating_fields b = f # fs"
  shows "\<exists>c. songValidationSchema_validate b = Inl [(f, c)]"
proof -
  from assms all_errors_violating [of b] obtain e es where e: "all_errors b = e # es" "fst e = f"
    by (cases "all_errors b") auto
  then show ?thesis
    by (cases e) (simp add: songValidationSchema_validate_def)
qed

text \<open>
  C3 as stated: for a payload with two or more invalid fields the details of the
  \<open>VALIDATION_ERROR\<close> have an entry for every violating field. It fails for a payload
  whose title is empty and whose artist is blank: the details name the title alone.
\<close>

theorem validation_lists_every_violation_counterexample:
  "violating_fields body_two_empty = [''title'', ''artist''] \<and>
   createSong 9 ''dddddddddddddddddddddddd'' body_two_empty example_db =
     (Failure 400 VALIDATION_ERROR [(''title'', string_empty)], example_db) \<and>
   updateSong 9 ''bbbbbbbbbbbbbbbbbbbbbbbb'' body_two_empty example_db =
     (Failure 400 VALIDATION_ERROR [(''title'', string_empty)], example_db) \<and>
   ''artist'' \<notin> fst ` set [(''title'', string_empty)]"
proof -
  have v: "violating_fields body_two_empty = [''title'', ''artist'']"
    by (simp add: violating_fields_def violating_def body_two_empty_def trim_def is_space_def)
  have c: "createSong 9 ''dddddddddddddddddddddddd'' body_two_empty example_db =
     (Failure 400 VALIDATION_ERROR [(''title'', string_empty)], example_db)"
    by (simp add: createSong_def validate_body_two_empty)
  have u: "updateSong 9 ''bbbbbbbbbbbbbbbbbbbbbbbb'' body_two_empty example_db =
     (Failure 400 VALIDATION_ERROR [(''title'', string_empty)], example_db)"
    by (simp add: updateSong_def validate_body_two_empty valid_id_examples)
  from v c u show ?thesis by simp
qed

text \<open>
  C3, amended. For every create or update payload in which at least one field is
  invalid (missing, not text, empty after trimming, or over the length bound), the
  details of the \<open>VALIDATION_ERROR\<close> hold exactly one entry, for the first violating
  field in the order title, artist, album, genre. (An update with a malformed
  identifier fails with \<open>INVALID_ID\<close> before the payload is looked at.)
\<close>

theorem validation_reports_first_violation:
  assumes "violating_fields body = f # fs"
  shows "\<exists>c. createSong now oid body d = (Failure 400 VALIDATION_ERROR [(f, c)], d) \<and>
     updateSong now i body d =
       (if valid_id i then (Failure 400 VALIDATION_ERROR [(f, c)], d)
        else (Failure 400 INVALID_ID [], d))"
proof -
  from validate_first_violation [OF assms] obtain c where
    "songValidationSchema_validate body = Inl [(f, c)]" ..
  then have "createSong now oid body d = (Failure 400 VALIDATION_ERROR [(f, c)], d) \<and>
     updateSong now i body d =
       (if valid_id i then (Failure 400 VALIDATION_ERROR [(f, c)], d)
        else (Failure 400 INVALID_ID [], d))"
    by (simp add: createSong_def updateSong_def)
  then show ?thesis ..
qed

theorem validation_reports_first_violation_witness:
  "violating_fields body_two_empty = ''title'' # [''artist''] \<and>
   (\<exists>c. createSong 9 ''dddddddddddddddddddddddd'' body_two_empty example_db =
           (Failure 400 VALIDATION_ERROR [(''title'', c)], example_db) \<and>
        updateSong 9 ''bbbbbbbbbbbbbbbbbbbbbbbb'' body_two_empty example_db =
           (Failure 400 VALIDATION_ERROR [(''title'', c)], example_db))"
proof -
  have v: "violating_fields body_two_empty = ''title'' # [''artist'']"
    by (simp add: violating_fields_def violating_def body_two_empty_def trim_def is_space_def)
  from validation_reports_first_violation [OF v, of 9 "''dddddddddddddddddddddddd''" example_db
      "''bbbbbbbbbbbbbbbbbbbbbbbb''"]
  have "\<exists>c. createSong 9 ''dddddddddddddddddddddddd'' body_two_empty example_db =
           (Failure 400 VALIDATION_ERROR [(''title'', c)], example_db) \<and>
        updateSong 9 ''bbbbbbbbbbbbbbbbbbbbbbbb'' body_two_empty example_db =
           (Failure 400 VALIDATION_ERROR [(''title'', c)], example_db)"
    by (simp add: valid_id_examples)
  with v show ?thesis ..
qed

section \<open>Filtering by genre\<close>

lemma sort_desc_mset: "mset (sort_desc f xs) = mset xs"
  by (simp add: sort_desc_def)

lemma sort_desc_sorted: "sorted_wrt (\<lambda>a b. f b \<le> f a) (sort_desc f xs)"
proof -
  have "sorted (map f (sort_key f xs))" by simp
  then have "sorted_wrt (\<lambda>a b. f a \<le> f b) (sort_key f xs)"
    by (simp add: sorted_map)
  then show ?thesis
    by (simp add: sort_desc_def sorted_wrt_rev)
qed

text \<open>
  C2 as stated: filtering by genre returns the records whose genre contains the given
  text, letter case ignored, ordered by title. It fails: \<open>rock\<close> finds no record of genre
  \<open>Rock\<close>; the records of genre \<open>Rock\<close> come most recently created first, not by title;
  and \<open>Rock\<close> between blanks, which no genre contains, finds the records of genre \<open>Rock\<close>.
\<close>

theorem filterSongs_substring_by_title_counterexample:
  "filterSongs (Some ''rock'') example_db = Success 200 [] \<and>
   spec_findByGenre ''rock'' (docs example_db) = [song_a, song_c] \<and>
   filterSongs (Some ''Rock'') example_db = Success 200 [song_c, song_a] \<and>
   spec_findByGenre ''Rock'' (docs example_db) = [song_a, song_c] \<and>
   filterSongs (Some '' Rock '') example_db = Success 200 [song_c, song_a] \<and>
   spec_findByGenre '' Rock '' (docs example_db) = [] \<and>
   song_a \<noteq> song_c"
  by (simp add: filterSongs_def sort_desc_def spec_findByGenre_def spec_genre_matches_def
      to_lower_def trim_def is_space_def example_defs)

text \<open>
  C2, amended. For every stored record set and every non-empty genre text \<open>G\<close>, the
  store being available, filtering by genre returns exactly the records whose genre is
  equal to \<open>G\<close> trimmed of the white space at its ends (an exact match, letter case
  kept), and returns them most recently created first.
\<close>

theorem filterSongs_exact_genre_recent_first:
  assumes "g \<noteq> []" and "available d"
  shows "\<exists>r. filterSongs (Some g) d = Success 200 r \<and>
     mset r = mset (filter (\<lambda>s. genre s = trim g) (docs d)) \<and>
     sorted_wrt (\<lambda>a b. createdAt b \<le> createdAt a) r"
  using assms by (simp add: filterSongs_def sort_desc_mset sort_desc_sorted)

theorem filterSongs_exact_genre_recent_first_witness:
  "'' Rock '' \<noteq> [] \<and> available example_db \<and>
   (\<exists>r. filterSongs (Some '' Rock '') example_db = Success 200 r \<and>
      mset r = {#song_a, song_c#} \<and>
      sorted_wrt (\<lambda>a b. createdAt b \<le> createdAt a) r)"
proof -
  have n: "'' Rock '' \<noteq> []" by simp
  have a: "available example_db" by (simp add: example_db_def)
  from filterSongs_exact_genre_recent_first [OF n a] obtain r where
    r: "filterSongs (Some '' Rock '') example_db = Success 200 r"
      "mset r = mset (filter (\<lambda>s. genre s = trim '' Rock '') (docs example_db))"
      "sorted_wrt (\<lambda>a b. createdAt b \<le> createdAt a) r"
    by blast
  have t: "trim '' Rock '' = ''Rock''"
    by (simp add: trim_def is_space_def)
  have "mset (filter (\<lambda>s. genre s = trim '' Rock '') (docs example_db)) = {#song_a, song_c#}"
    unfolding t by (simp add: example_defs)
  with r n a show ?thesis by auto
qed

section \<open>The mirror after a successful mutation\<close>

lemma findIndex_None: "findIndex P xs = None \<longleftrightarrow> (\<forall>x\<in>set xs. \<not> P x)"
  by (induction xs) auto

lemma findIndex_Some:
  "findIndex P xs = Some i \<Longrightarrow> i < length xs \<and> P (xs ! i) \<and> (\<forall>k<i. \<not> P (xs ! k))"
proof (induction xs arbitrary: i)
  case Nil
  then show ?case by simp
next
  case (Cons x xs)
  show ?case
  proof (cases "P x")
    case True
    with Cons.prems show ?thesis by simp
  next
    case False
    with Cons.prems obtain j where j: "findIndex P xs = Some j" "i = Suc j" by auto
    from Cons.IH [OF j(1)] False j(2) show ?thesis
      by (auto simp: nth_Cons split: nat.splits)
  qed
qed

lemma update_nth:
  assumes "j < length (items st)"
  shows "items (songsReducer st (UpdateSongSuccess p)) ! j =
     (if s_id (items st ! j) = s_id p \<and> (\<forall>k<j. s_id (items st ! k) \<noteq> s_id p) then p
      else items st ! j)"
proof (cases "findIndex (\<lambda>song. s_id song = s_id p) (items st)")
  case None
  with assms have "s_id (items st ! j) \<noteq> s_id p"
    by (simp add: findIndex_None)
  with None show ?thesis by simp
next
  case (Some i)
  from findIndex_Some [OF Some] have i: "i < length (items st)" "s_id (items st ! i) = s_id p"
    "\<forall>k<i. s_id (items st ! k) \<noteq> s_id p" by auto
  have "i = j \<longleftrightarrow> s_id (items st ! j) = s_id p \<and> (\<forall>k<j. s_id (items st ! k) \<noteq> s_id p)"
    using i by (metis linorder_neqE_nat)
  with Some assms i(1) show ?thesis
    by (auto simp: nth_list_update)
qed

lemma update_length: "length (items (songsReducer st (UpdateSongSuccess p))) = length (items st)"
  by (simp split: option.splits)

lemma update_distinct:
  assumes "distinct (map s_id (items st))"
  shows "items (songsReducer st (UpdateSongSuccess p)) =
     map (\<lambda>s. if s_id s = s_id p then p else s) (items st)"
proof (rule nth_equalityI)
  show "length (items (songsReducer st (UpdateSongSuccess p))) =
      length (map (\<lambda>s. if s_id s = s_id p then p else s) (items st))"
    by (simp only: update_length length_map)
next
  fix j
  assume "j < length (items (songsReducer st (UpdateSongSuccess p)))"
  then have j: "j < length (items st)" by (simp only: update_length)
  have "s_id (items st ! j) = s_id p \<Longrightarrow> k < j \<Longrightarrow> s_id (items st ! k) \<noteq> s_id p" for k
  proof
    assume a: "s_id (items st ! j) = s_id p" "k < j" "s_id (items st ! k) = s_id p"
    with j have e: "map s_id (items st) ! k = map s_id (items st) ! j" by simp
    from a(2) j have "k < length (map s_id (items st))" "j < length (map s_id (items st))"
      by simp_all
    with assms have "(map s_id (items st) ! k = map s_id (items st) ! j) = (k = j)"
      by (rule nth_eq_iff_index_eq)
    with e a(2) show False by simp
  qed
  with j show "items (songsReducer st (UpdateSongSuccess p)) ! j =
      map (\<lambda>s. if s_id s = s_id p then p else s) (items st) ! j"
    by (auto simp: update_nth simp del: songsReducer.simps)
qed

text \<open>
  C4. For every state of the client's mirror: the success of a create puts the returned
  record in front of the items and leaves the items that were there in place; the
  success of an update replaces the item whose \<open>_id\<close> is that of the returned record (the
  first such item; the only one when the identifiers are distinct) at its position and
  leaves every other position as it is; the success of a delete removes exactly the
  items whose \<open>_id\<close> is the deleted one and keeps the others in order.
\<close>

theorem mirror_applies_mutation_success:
  "items (songs (rootReducer st (CreateSongSuccess p))) = p # items (songs st) \<and>
   length (items (songs (rootReducer st (UpdateSongSuccess p)))) = length (items (songs st)) \<and>
   (\<forall>j<length (items (songs st)).
      items (songs (rootReducer st (UpdateSongSuccess p))) ! j =
        (if s_id (items (songs st) ! j) = s_id p \<and>
            (\<forall>k<j. s_id (items (songs st) ! k) \<noteq> s_id p)
         then p else items (songs st) ! j)) \<and>
   (distinct (map s_id (items (songs st))) \<longrightarrow>
      items (songs (rootReducer st (UpdateSongSuccess p))) =
        map (\<lambda>s. if s_id s = s_id p then p else s) (items (songs st))) \<and>
   items (songs (rootReducer st (DeleteSongSuccess i))) =
     filter (\<lambda>s. s_id s \<noteq> i) (items (songs st)) \<and>
   i \<notin> s_id ` set (items (songs (rootReducer st (DeleteSongSuccess i))))"
proof -
  have c: "items (songs (rootReducer st (CreateSongSuccess p))) = p # items (songs st)"
    by (simp add: rootReducer_def)
  have u: "songs (rootReducer st (UpdateSongSuccess p)) = songsReducer (songs st) (UpdateSongSuccess p)"
    by (simp add: rootReducer_def)
  have d: "items (songs (rootReducer st (DeleteSongSuccess i))) =
     filter (\<lambda>s. s_id s \<noteq> i) (items (songs st))"
    by (simp add: rootReducer_def)
  have d': "i \<notin> s_id ` set (items (songs (rootReducer st (DeleteSongSuccess i))))"
    unfolding d by auto
  show ?thesis
    unfolding u using c d d' update_length update_nth update_distinct by blast
qed

theorem mirror_applies_mutation_success_witness:
  "items (songs (rootReducer example_store (CreateSongSuccess song_d))) =
     [song_d, song_a, song_b, song_c] \<and>
   items (songs (rootReducer example_store (UpdateSongSuccess (song_b\<lparr>title := ''New''\<rparr>)))) =
     [song_a, song_b\<lparr>title := ''New''\<rparr>, song_c] \<and>
   items (songs (rootReducer example_store (DeleteSongSuccess ''bbbbbbbbbbbbbbbbbbbbbbbb''))) =
     [song_a, song_c]"
proof -
  have i: "items (songs example_store) = [song_a, song_b, song_c]"
    by (simp add: example_store_def example_songs_def)
  have ds: "distinct (map s_id (items (songs example_store)))"
    by (simp add: i example_defs)
  from mirror_applies_mutation_success [of example_store song_d]
  have 1: "items (songs (rootReducer example_store (CreateSongSuccess song_d))) =
     [song_d, song_a, song_b, song_c]"
    by (simp add: i)
  from mirror_applies_mutation_success [of example_store "song_b\<lparr>title := ''New''\<rparr>"] ds
  have 2: "items (songs (rootReducer example_store (UpdateSongSuccess (song_b\<lparr>title := ''New''\<rparr>)))) =
     [song_a, song_b\<lparr>title := ''New''\<rparr>, song_c]"
    by (simp add: i example_defs)
  from mirror_applies_mutation_success [of example_store _ "''bbbbbbbbbbbbbbbbbbbbbbbb''"]
  have 3: "items (songs (rootReducer example_store (DeleteSongSuccess ''bbbbbbbbbbbbbbbbbbbbbbbb''))) =
     [song_a, song_c]"
    by (simp add: i example_defs)
  from 1 2 3 show ?thesis by simp
qed

section \<open>Statistics are fetched again after a mutation\<close>












section \<open>Failures leave the data alone\<close>

lemma failure_reducers:
  "loading (songs (rootReducer st (FetchSongsFailure m))) = False \<and>
   error (songs (rootReducer st (FetchSongsFailure m))) = Some m \<and>
   items (songs (rootReducer st (FetchSongsFailure m))) = items (songs st) \<and>
   st_data (statistics (rootReducer st (FetchSongsFailure m))) = st_data (statistics st)"
  "loading (songs (rootReducer st (CreateSongFailure m))) = False \<and>
   error (songs (rootReducer st (CreateSongFailure m))) = Some m \<and>
   items (songs (rootReducer st (CreateSongFailure m))) = items (songs st) \<and>
   st_data (statistics (rootReducer st (CreateSongFailure m))) = st_data (statistics st)"
  "loading (songs (rootReducer st (UpdateSongFailure m))) = False \<and>
   error (songs (rootReducer st (UpdateSongFailure m))) = Some m \<and>
   items (songs (rootReducer st (UpdateSongFailure m))) = items (songs st) \<and>
   st_data (statistics (rootReducer st (UpdateSongFailure m))) = st_data (statistics st)"
  "loading (songs (rootReducer st (DeleteSongFailure m))) = False \<and>
   error (songs (rootReducer st (DeleteSongFailure m))) = Some m \<and>
   items (songs (rootReducer st (DeleteSongFailure m))) = items (songs st) \<and>
   st_data (statistics (rootReducer st (DeleteSongFailure m))) = st_data (statistics st)"
  "st_loading (statistics (rootReducer st (FetchStatisticsFailure m))) = False \<and>
   st_error (statistics (rootReducer st (FetchStatisticsFailure m))) = Some m \<and>
   items (songs (rootReducer st (FetchStatisticsFailure m))) = items (songs st) \<and>
   st_data (statistics (rootReducer st (FetchStatisticsFailure m))) = st_data (statistics st)"
  by (simp_all add: rootReducer_def)

lemma failure_messages:
  "fetchSongsSaga (Inl e) = [FetchSongsFailure (error_message e ''Failed to fetch songs'')]"
  "createSongSaga (Inl e) = [CreateSongFailure (error_message e ''Failed to create song'')]"
  "updateSongSaga (Inl e) = [UpdateSongFailure (error_message e ''Failed to update song'')]"
  "deleteSongSaga i (Inl e) = [DeleteSongFailure (error_message e ''Failed to delete song'')]"
  "fetchStatisticsSaga (Inl e) =
     [FetchStatisticsFailure (error_message e ''Failed to fetch statistics'')]"
  "filterSongsSaga (Inl e) = [FetchSongsFailure (error_message e ''Failed to filter songs'')]"
  by (simp_all add: fetchSongsSaga_def createSongSaga_def updateSongSaga_def deleteSongSaga_def
      fetchStatisticsSaga_def filterSongsSaga_def)

text \<open>
  C7. For every state of the client's mirror and every failure action of any concern,
  the state after it has the concern's \<open>loading\<close> false and its \<open>error\<close> set to the message
  of the action, and the items and the statistics snapshot are those of the state
  before. The message is derived from the failure: every saga puts, when its call
  throws, the one failure action whose message is the \<open>message\<close> of the error when that
  is a non-empty text, and the default of the saga when the error has no message or an
  empty one; that message is the \<open>error\<close> of the state after the action.
\<close>

theorem failure_keeps_mirror_data:
  "(loading (songs (rootReducer st (FetchSongsFailure m))) = False \<and>
    error (songs (rootReducer st (FetchSongsFailure m))) = Some m \<and>
    items (songs (rootReducer st (FetchSongsFailure m))) = items (songs st) \<and>
    st_data (statistics (rootReducer st (FetchSongsFailure m))) = st_data (statistics st)) \<and>
   (loading (songs (rootReducer st (CreateSongFailure m))) = False \<and>
    error (songs (rootReducer st (CreateSongFailure m))) = Some m \<and>
    items (songs (rootReducer st (CreateSongFailure m))) = items (songs st) \<and>
    st_data (statistics (rootReducer st (CreateSongFailure m))) = st_data (statistics st)) \<and>
   (loading (songs (rootReducer st (UpdateSongFailure m))) = False \<and>
    error (songs (rootReducer st (UpdateSongFailure m))) = Some m \<and>
    items (songs (rootReducer st (UpdateSongFailure m))) = items (songs st) \<and>
    st_data (statistics (rootReducer st (UpdateSongFailure m))) = st_data (statistics st)) \<and>
   (loading (songs (rootReducer st (DeleteSongFailure m))) = False \<and>
    error (songs (rootReducer st (DeleteSongFailure m))) = Some m \<and>
    items (songs (rootReducer st (DeleteSongFailure m))) = items (songs st) \<and>
    st_data (statistics (rootReducer st (DeleteSongFailure m))) = st_data (statistics st)) \<and>
   (st_loading (statistics (rootReducer st (FetchStatisticsFailure m))) = False \<and>
    st_error (statistics (rootReducer st (FetchStatisticsFailure m))) = Some m \<and>
    items (songs (rootReducer st (FetchStatisticsFailure m))) = items (songs st) \<and>
    st_data (statistics (rootReducer st (FetchStatisticsFailure m))) = st_data (statistics st)) \<and>
   fetchSongsSaga (Inl e) = [FetchSongsFailure (error_message e ''Failed to fetch songs'')] \<and>
   createSongSaga (Inl e) = [CreateSongFailure (error_message e ''Failed to create song'')] \<and>
   updateSongSaga (Inl e) = [UpdateSongFailure (error_message e ''Failed to update song'')] \<and>
   deleteSongSaga i (Inl e) = [DeleteSongFailure (error_message e ''Failed to delete song'')] \<and>
   fetchStatisticsSaga (Inl e) =
     [FetchStatisticsFailure (error_message e ''Failed to fetch statistics'')] \<and>
   filterSongsSaga (Inl e) = [FetchSongsFailure (error_message e ''Failed to filter songs'')] \<and>
   error_message (Some (c # cs)) dflt = c # cs \<and>
   error_message (Some []) dflt = dflt \<and>
   error_message None dflt = dflt \<and>
   (error (songs (foldl rootReducer st (fetchSongsSaga (Inl (Some (c # cs)))))) = Some (c # cs) \<and>
    error (songs (foldl rootReducer st (fetchSongsSaga (Inl (Some []))))) =
      Some ''Failed to fetch songs'' \<and>
    error (songs (foldl rootReducer st (fetchSongsSaga (Inl None)))) =
      Some ''Failed to fetch songs'') \<and>
   (error (songs (foldl rootReducer st (createSongSaga (Inl (Some (c # cs)))))) = Some (c # cs) \<and>
    error (songs (foldl rootReducer st (createSongSaga (Inl (Some []))))) =
      Some ''Failed to create song'' \<and>
    error (songs (foldl rootReducer st (createSongSaga (Inl None)))) =
      Some ''Failed to create song'') \<and>
   (error (songs (foldl rootReducer st (updateSongSaga (Inl (Some (c # cs)))))) = Some (c # cs) \<and>
    error (songs (foldl rootReducer st (updateSongSaga (Inl (Some []))))) =
      Some ''Failed to update song'' \<and>
    error (songs (foldl rootReducer st (updateSongSaga (Inl None)))) =
      Some ''Failed to update song'') \<and>
   (error (songs (foldl rootReducer st (deleteSongSaga i (Inl (Some (c # cs)))))) =
      Some (c # cs) \<and>
    error (songs (foldl rootReducer st (deleteSongSaga i (Inl (Some []))))) =
      Some ''Failed to delete song'' \<and>
    error (songs (foldl rootReducer st (deleteSongSaga i (Inl None)))) =
      Some ''Failed to delete song'') \<and>
   (st_error (statistics (foldl rootReducer st (fetchStatisticsSaga (Inl (Some (c # cs)))))) =
      Some (c # cs) \<and>
    st_error (statistics (foldl rootReducer st (fetchStatisticsSaga (Inl (Some []))))) =
      Some ''Failed to fetch statistics'' \<and>
    st_error (statistics (foldl rootReducer st (fetchStatisticsSaga (Inl None)))) =
      Some ''Failed to fetch statistics'') \<and>
   (error (songs (foldl rootReducer st (filterSongsSaga (Inl (Some (c # cs)))))) = Some (c # cs) \<and>
    error (songs (foldl rootReducer st (filterSongsSaga (Inl (Some []))))) =
      Some ''Failed to filter songs'' \<and>
    error (songs (foldl rootReducer st (filterSongsSaga (Inl None)))) =
      Some ''Failed to filter songs'')"
proof -
  have m: "error_message (Some (c # cs)) dflt = c # cs" "error_message (Some []) dflt = dflt"
    "error_message None dflt = dflt" for dflt
    by (simp_all add: error_message_def)
  have r: "error (songs (foldl rootReducer st [FetchSongsFailure x])) = Some x"
    "error (songs (foldl rootReducer st [CreateSongFailure x])) = Some x"
    "error (songs (foldl rootReducer st [UpdateSongFailure x])) = Some x"
    "error (songs (foldl rootReducer st [DeleteSongFailure x])) = Some x"
    "st_error (statistics (foldl rootReducer st [FetchStatisticsFailure x])) = Some x" for x
    by (simp_all add: rootReducer_def)
  show ?thesis
    by (simp only: failure_reducers failure_messages m r simp_thms)
qed

section \<open>Requests in flight\<close>

text \<open>
  C9. Only the result of the most recently issued request of a concern is applied; the
  result of an earlier one is dropped when it arrives. For the records this does not
  hold once a genre is selected: \<open>filterSongsSaga\<close> puts \<open>fetchSongsRequest\<close>, which makes
  the watcher of that action fetch all songs (task 0), and then issues the filter query
  (task 1) under its own watcher. Neither cancels the other. Here the filtered answer
  arrives first and is applied, then the answer to the earlier, unfiltered request
  arrives and is applied as well: the mirror shows all songs while the filter is
  \<open>Rock\<close>.
\<close>

theorem stale_fetch_applied_after_filter:
  "w_fetchSongs (run [Dispatch (SetGenreFilter (Some ''Rock''))] initial_system) = Some 0 \<and>
   w_filterSongs (run [Dispatch (SetGenreFilter (Some ''Rock''))] initial_system) = Some 1 \<and>
   items (songs (store (run [Dispatch (SetGenreFilter (Some ''Rock'')),
                             FilterSongsReturns 1 (Inr [song_c, song_a])] initial_system))) =
     [song_c, song_a] \<and>
   items (songs (store (run [Dispatch (SetGenreFilter (Some ''Rock'')),
                             FilterSongsReturns 1 (Inr [song_c, song_a]),
                             FetchSongsReturns 0 (Inr [song_c, song_b, song_a])]
                          initial_system))) =
     [song_c, song_b, song_a] \<and>
   f_genre (filters (store (run [Dispatch (SetGenreFilter (Some ''Rock'')),
                                 FilterSongsReturns 1 (Inr [song_c, song_a]),
                                 FetchSongsReturns 0 (Inr [song_c, song_b, song_a])]
                              initial_system))) =
     Some ''Rock''"
  by (simp add: run_def initial_system_def dispatch_def dispatch_plain_def rootReducer_def
      truthy_def puts_def fetchSongsSaga_def filterSongsSaga_def Let_def)

text \<open>Within one watcher the answer for a cancelled task is dropped.\<close>

lemma stale_answer_dropped:
  "w_fetchSongs sys \<noteq> Some t \<Longrightarrow> step (FetchSongsReturns t r) sys = sys"
  "w_createSong sys \<noteq> Some t \<Longrightarrow> step (CreateSongReturns t r') sys = sys"
  "w_updateSong sys \<noteq> Some t \<Longrightarrow> step (UpdateSongReturns t r') sys = sys"
  "w_fetchStatistics sys \<noteq> Some t \<Longrightarrow> step (FetchStatisticsReturns t r'') sys = sys"
  "w_filterSongs sys \<noteq> Some t \<Longrightarrow> step (FilterSongsReturns t r) sys = sys"
  by simp_all

lemma same_watcher_latest_wins:
  "items (songs (store (run [Dispatch FetchSongsRequest, Dispatch FetchSongsRequest,
                             FetchSongsReturns 1 (Inr [song_b]),
                             FetchSongsReturns 0 (Inr [song_a])] initial_system))) = [song_b]"
  by (simp add: run_def initial_system_def dispatch_def dispatch_plain_def rootReducer_def
      puts_def fetchSongsSaga_def)

end
